theory Spec2Isabelle
  imports Main "HOL-Library.Sublist"
begin

section \<open>JavaScript values handled by the compactor\<close>

text \<open>
  \<^verbatim>\<open>compressObj\<close> (src/compressObj.js) dispatches on three kinds of value: arrays,
  other non-null objects, and everything else.  A value is modelled as a finite tree.
  \<open>JObj\<close> lists the own enumerable properties of a plain object in the order of
  \<^verbatim>\<open>Object.keys\<close>.  \<open>JUndef\<close> is \<^verbatim>\<open>undefined\<close>, the absence marker.  Numbers are
  never inspected by the compactor, so an integer payload stands for them.
\<close>

datatype jv =
    JUndef
  | JNull
  | JBool bool
  | JNum int
  | JStr string
  | JArr "jv list"
  | JObj "(string \<times> jv) list"

text \<open>\<^verbatim>\<open>typeof v === 'object' && v !== null\<close>\<close>

fun is_object :: "jv \<Rightarrow> bool" where
  "is_object (JArr _) = True"
| "is_object (JObj _) = True"
| "is_object _ = False"

text \<open>\<^verbatim>\<open>v !== "" && v !== null && v !== undefined\<close>, for a value that is not an object.\<close>

fun keep_primitive :: "jv \<Rightarrow> bool" where
  "keep_primitive (JStr s) = (s \<noteq> [])"
| "keep_primitive JNull = False"
| "keep_primitive JUndef = False"
| "keep_primitive _ = True"

text \<open>
  \<^verbatim>\<open>compressed[key] = value\<close> on the fresh object literal \<^verbatim>\<open>{}\<close>.  The keys come from
  \<^verbatim>\<open>Object.keys(input)\<close> and are pairwise distinct, so an ordinary key adds one own
  property at the end.  The key \<^verbatim>\<open>__proto__\<close> is the inherited accessor of
  \<^verbatim>\<open>Object.prototype\<close>: assigning to it changes the prototype (or does nothing, when
  the value is a primitive) and creates no own property.
\<close>

definition assign_own :: "(string \<times> jv) list \<Rightarrow> string \<Rightarrow> jv \<Rightarrow> (string \<times> jv) list" where
  "assign_own compressed key v =
     (if key = ''__proto__'' then compressed else compressed @ [(key, v)])"

section \<open>The compactor\<close>

text \<open>
  The source decides "unchanged" by reference identity (\<^verbatim>\<open>reduced !== element\<close>) and
  returns the input reference itself when nothing changed.  A tree has no identity, so
  the model returns, next to the value, whether that value is the very reference that was
  passed in: \<open>(v, True)\<close> is \<^verbatim>\<open>return input\<close>, \<open>(v, False)\<close> is a freshly built
  container or \<^verbatim>\<open>undefined\<close>.

  \<open>reduce_elements\<close> is the callback of \<^verbatim>\<open>input.reduce\<close> run over the elements, with
  the accumulator \<open>result\<close> and the flag \<open>modified\<close>; \<open>reduce_keys\<close> is the
  \<^verbatim>\<open>for (const key of _keys)\<close> loop with \<open>compressed\<close> and \<open>modified\<close>.
\<close>

fun compressObj :: "jv \<Rightarrow> jv \<times> bool"
  and reduce_elements :: "jv list \<times> bool \<Rightarrow> jv list \<Rightarrow> jv list \<times> bool"
  and reduce_keys :: "(string \<times> jv) list \<times> bool \<Rightarrow> (string \<times> jv) list \<Rightarrow> (string \<times> jv) list \<times> bool"
where
  "compressObj (JArr input) =
     (if length input = 0 then (JUndef, False)
      else (case reduce_elements ([], False) input of
              (compressed, modified) \<Rightarrow>
                if length compressed = length input \<and> \<not> modified then (JArr input, True)
                else if length compressed > 0 then (JArr compressed, False)
                else (JUndef, False)))"
| "compressObj (JObj input) =
     (if length input = 0 then (JUndef, False)
      else (case reduce_keys ([], False) input of
              (compressed, modified) \<Rightarrow>
                if length compressed = length input \<and> \<not> modified then (JObj input, True)
                else if length compressed > 0 then (JObj compressed, False)
                else (JUndef, False)))"
| "compressObj input = (input, True)"
| "reduce_elements (result, modified) [] = (result, modified)"
| "reduce_elements (result, modified) (element # rest) =
     (if is_object element then
        (case compressObj element of
           (reduced, same) \<Rightarrow>
             if reduced \<noteq> JUndef
             then reduce_elements (result @ [reduced], modified \<or> \<not> same) rest
             else reduce_elements (result, True) rest)
      else if keep_primitive element then reduce_elements (result @ [element], modified) rest
      else reduce_elements (result, True) rest)"
| "reduce_keys (compressed, modified) [] = (compressed, modified)"
| "reduce_keys (compressed, modified) ((key, val) # rest) =
     (if is_object val then
        (case compressObj val of
           (reduced, same) \<Rightarrow>
             if reduced \<noteq> JUndef
             then reduce_keys (assign_own compressed key reduced, modified \<or> \<not> same) rest
             else reduce_keys (compressed, True) rest)
      else if keep_primitive val then reduce_keys (assign_own compressed key val, modified) rest
      else reduce_keys (compressed, True) rest)"

section \<open>Properties of compacted values\<close>

text \<open>
  \<open>no_empty v\<close>: nowhere in the tree \<open>v\<close>, the root included, stands \<^verbatim>\<open>undefined\<close>,
  \<^verbatim>\<open>null\<close>, the empty string, an empty array or an object without own keys.
\<close>

fun no_empty :: "jv \<Rightarrow> bool" where
  "no_empty (JArr xs) = (xs \<noteq> [] \<and> list_all no_empty xs)"
| "no_empty (JObj kvs) = (kvs \<noteq> [] \<and> list_all (\<lambda>kv. no_empty (snd kv)) kvs)"
| "no_empty (JStr s) = (s \<noteq> [])"
| "no_empty JNull = False"
| "no_empty JUndef = False"
| "no_empty _ = True"

text \<open>\<open>no_proto_key v\<close>: no object in the tree has an own property named \<^verbatim>\<open>__proto__\<close>.\<close>

fun no_proto_key :: "jv \<Rightarrow> bool" where
  "no_proto_key (JArr xs) = list_all no_proto_key xs"
| "no_proto_key (JObj kvs) =
     list_all (\<lambda>kv. fst kv \<noteq> ''__proto__'' \<and> no_proto_key (snd kv)) kvs"
| "no_proto_key _ = True"

definition compact :: "jv \<Rightarrow> bool" where
  "compact v = (no_empty v \<and> no_proto_key v)"

text \<open>
  A container none of whose elements or mapping values is removable at any depth: every
  child is a tree without empties.  The container's own length is not constrained.
\<close>

fun nothing_removable :: "jv \<Rightarrow> bool" where
  "nothing_removable (JArr xs) = list_all no_empty xs"
| "nothing_removable (JObj kvs) = list_all (\<lambda>kv. no_empty (snd kv)) kvs"
| "nothing_removable _ = False"

text \<open>The table record of the spec's example, with arbitrary schema, type and name.\<close>

definition empty_table_record :: "string \<Rightarrow> string \<Rightarrow> string \<Rightarrow> jv" where
  "empty_table_record s ty n =
     JObj [(''schema'', JStr s), (''type'', JStr ty), (''name'', JStr n),
           (''columns'', JArr []), (''constraints'', JArr []), (''indexes'', JArr []),
           (''comments'', JObj [])]"

section \<open>Strings\<close>

text \<open>
  A JavaScript string is modelled as a list of code units below 256 (\<open>string\<close>).
  In that range the white space and line terminators of the language, which
  \<^verbatim>\<open>String.prototype.trim\<close> strips and \<^verbatim>\<open>\s\<close> matches, are the code units
  9 to 13, 32 and 160.
\<close>

definition is_space :: "char \<Rightarrow> bool" where
  "is_space c = (c \<in> set [CHR 0x09, CHR 0x0A, CHR 0x0B, CHR 0x0C, CHR 0x0D, CHR 0x20, CHR 0xA0])"

text \<open>\<^verbatim>\<open>\w\<close>\<close>

definition is_word :: "char \<Rightarrow> bool" where
  "is_word c = (c \<in> set ''ABCDEFGHIJKLMNOPQRSTUVWXYZabcdefghijklmnopqrstuvwxyz0123456789_'')"

text \<open>
  The canonical form of a code unit under the flag \<^verbatim>\<open>i\<close>.  Every literal of the
  patterns below is ASCII, and no code unit from 128 up is canonicalised to an ASCII one,
  so folding the 26 letters is all that matters.
\<close>

definition upper :: "char \<Rightarrow> char" where
  "upper c =
     (case map_of (zip ''abcdefghijklmnopqrstuvwxyz'' ''ABCDEFGHIJKLMNOPQRSTUVWXYZ'') c of
        Some u \<Rightarrow> u
      | None \<Rightarrow> c)"

text \<open>\<^verbatim>\<open>String.prototype.trim\<close>\<close>

definition trim :: "string \<Rightarrow> string" where
  "trim s = rev (dropWhile is_space (rev (dropWhile is_space s)))"

text \<open>\<^verbatim>\<open>arr[i]\<close>: \<open>None\<close> is \<^verbatim>\<open>undefined\<close>, the value of an index out of range.\<close>

definition at :: "'a list \<Rightarrow> nat \<Rightarrow> 'a option" where
  "at xs i = (if i < length xs then Some (xs ! i) else None)"

text \<open>
  \<^verbatim>\<open>s.split(sep)\<close> for a non-empty separator string: the pieces between the
  occurrences of \<open>sep\<close>, found from left to right without overlap.  The result is never
  empty: a string without the separator is its own single piece.
\<close>

fun add_to_first :: "char \<Rightarrow> string list \<Rightarrow> string list" where
  "add_to_first c [] = [[c]]"
| "add_to_first c (p # ps) = (c # p) # ps"

fun split_on :: "string \<Rightarrow> string \<Rightarrow> string list" where
  "split_on sep [] = [[]]"
| "split_on sep (c # cs) =
     (if sep \<noteq> [] \<and> prefix sep (c # cs) then [] # split_on sep (drop (length sep) (c # cs))
      else add_to_first c (split_on sep cs))"

text \<open>\<^verbatim>\<open>s.replace(pat, repl)\<close> with a string pattern: the first occurrence only.\<close>

fun str_replace :: "string \<Rightarrow> string \<Rightarrow> string \<Rightarrow> string" where
  "str_replace pat repl [] = (if pat = [] then repl else [])"
| "str_replace pat repl (c # cs) =
     (if prefix pat (c # cs) then repl @ drop (length pat) (c # cs)
      else c # str_replace pat repl cs)"

section \<open>Regular expressions\<close>

text \<open>
  The patterns of the parser use character classes, greedy and lazy repetition of a
  single class, concatenation, alternation, an optional group and capture groups.  The
  matcher below is the backtracking semantics of the language written as the list of all
  ways to match, in the order in which the backtracking search tries them; the match that
  \<^verbatim>\<open>String.prototype.match\<close> reports is the first one.
\<close>

datatype cls = Space | Word | Dot | Ch char | OneOf "cls list"

fun cls_match :: "bool \<Rightarrow> cls \<Rightarrow> char \<Rightarrow> bool" where
  "cls_match icase Space c = is_space c"
| "cls_match icase Word c = is_word c"
| "cls_match icase Dot c = (c \<noteq> CHR 0x0A \<and> c \<noteq> CHR 0x0D)"
| "cls_match icase (Ch x) c = (if icase then upper c = upper x else c = x)"
| "cls_match icase (OneOf ks) c = list_ex (\<lambda>k. cls_match icase k c) ks"

datatype rx =
    One cls
  | Star cls
  | Plus cls
  | Lazy cls
  | Seq "rx list"
  | Alt rx rx
  | Opt rx
  | Group nat rx
  | Eos

definition lit :: "string \<Rightarrow> rx" where
  "lit w = Seq (map (\<lambda>c. One (Ch c)) w)"

type_synonym captures = "(nat \<times> string) list"
type_synonym mstate = "string \<times> captures"

text \<open>What is left of the input after \<^verbatim>\<open>c*\<close>, longest match first; after \<^verbatim>\<open>c*?\<close>, shortest first.\<close>

fun greedy :: "(char \<Rightarrow> bool) \<Rightarrow> string \<Rightarrow> string list" where
  "greedy p [] = [[]]"
| "greedy p (x # xs) = (if p x then greedy p xs @ [x # xs] else [x # xs])"

fun lazy :: "(char \<Rightarrow> bool) \<Rightarrow> string \<Rightarrow> string list" where
  "lazy p [] = [[]]"
| "lazy p (x # xs) = (x # xs) # (if p x then lazy p xs else [])"

fun run :: "bool \<Rightarrow> rx \<Rightarrow> mstate \<Rightarrow> mstate list"
  and run_seq :: "bool \<Rightarrow> rx list \<Rightarrow> mstate \<Rightarrow> mstate list"
where
  "run icase (One k) (s, caps) =
     (case s of [] \<Rightarrow> [] | x # xs \<Rightarrow> if cls_match icase k x then [(xs, caps)] else [])"
| "run icase (Star k) (s, caps) = map (\<lambda>r. (r, caps)) (greedy (cls_match icase k) s)"
| "run icase (Plus k) (s, caps) =
     (case s of [] \<Rightarrow> []
      | x # xs \<Rightarrow> if cls_match icase k x
                  then map (\<lambda>r. (r, caps)) (greedy (cls_match icase k) xs) else [])"
| "run icase (Lazy k) (s, caps) = map (\<lambda>r. (r, caps)) (lazy (cls_match icase k) s)"
| "run icase (Seq rs) st = run_seq icase rs st"
| "run icase (Alt a b) st = run icase a st @ run icase b st"
| "run icase (Opt a) st = run icase a st @ [st]"
| "run icase (Group n a) (s, caps) =
     map (\<lambda>(s', caps'). (s', (n, take (length s - length s') s) # caps')) (run icase a (s, caps))"
| "run icase Eos (s, caps) = (if s = [] then [(s, caps)] else [])"
| "run_seq icase [] st = [st]"
| "run_seq icase (r # rs) st = concat (map (run_seq icase rs) (run icase r st))"

text \<open>
  A match attempted at the start of the string only.  Every pattern that classifies a
  line begins with \<^verbatim>\<open>^\<close> and has no \<^verbatim>\<open>m\<close> flag, so this is its \<^verbatim>\<open>match\<close>.  The
  result holds the rest of the input after the match and the captures.
\<close>

definition rx_exec :: "bool \<Rightarrow> rx \<Rightarrow> string \<Rightarrow> mstate option" where
  "rx_exec icase r s = (case run icase r (s, []) of [] \<Rightarrow> None | m # _ \<Rightarrow> Some m)"

text \<open>\<^verbatim>\<open>m[n]\<close> of a group that may not take part in the match: \<open>None\<close> is \<^verbatim>\<open>undefined\<close>.\<close>

definition cap_opt :: "mstate \<Rightarrow> nat \<Rightarrow> string option" where
  "cap_opt m n = map_of (snd m) n"

text \<open>
  The groups that take part in every match of a pattern: those outside every \<^verbatim>\<open>?\<close>
  and on both sides of every \<^verbatim>\<open>|\<close>.
\<close>

fun binds :: "rx \<Rightarrow> nat set" where
  "binds (Group n a) = insert n (binds a)"
| "binds (Seq rs) = (\<Union>r \<in> set rs. binds r)"
| "binds (Alt a b) = binds a \<inter> binds b"
| "binds _ = {}"

text \<open>
  \<^verbatim>\<open>m[n]\<close> of a group that takes part in every match of its pattern: the value is a
  string.  The parser reads only such groups this way (lemmas \<open>cap_defined\<close> and
  \<open>pattern_groups\<close>), so the default is never returned.
\<close>

definition cap :: "mstate \<Rightarrow> nat \<Rightarrow> string" where
  "cap m n = (case map_of (snd m) n of Some s \<Rightarrow> s | None \<Rightarrow> [])"

text \<open>A pattern without \<^verbatim>\<open>^\<close>: the match is searched from each position in turn.\<close>

fun rx_test :: "bool \<Rightarrow> rx \<Rightarrow> string \<Rightarrow> bool" where
  "rx_test icase r [] = (rx_exec icase r [] \<noteq> None)"
| "rx_test icase r (c # cs) = (rx_exec icase r (c # cs) \<noteq> None \<or> rx_test icase r cs)"

fun rx_replace :: "bool \<Rightarrow> rx \<Rightarrow> string \<Rightarrow> string \<Rightarrow> string" where
  "rx_replace icase r repl [] =
     (case rx_exec icase r [] of Some m \<Rightarrow> repl @ fst m | None \<Rightarrow> [])"
| "rx_replace icase r repl (c # cs) =
     (case rx_exec icase r (c # cs) of Some m \<Rightarrow> repl @ fst m
      | None \<Rightarrow> c # rx_replace icase r repl cs)"

section \<open>Name decomposition\<close>

definition TABLE :: nat where "TABLE = 1"
definition COLUMN :: nat where "COLUMN = 2"

definition schemaTableColumn :: "string \<Rightarrow> string \<Rightarrow> string list" where
  "schemaTableColumn name expected =
     (let sn = split_on ''.'' name; len = length sn in
      if len = 0 then ['''', '''', '''']
      else if expected = ''S.T'' \<and> len = 1 then [''''] @ sn
      else if expected = ''S.T'' \<and> len = 2 then sn
      else if expected = ''T.C'' \<and> len = 1 then ['''', ''''] @ sn
      else if expected = ''T.C'' \<and> len = 2 then [''''] @ sn
      else sn)"

section \<open>The objects built by the parser\<close>

text \<open>
  The object literals of \<^verbatim>\<open>parseDDL\<close> (src/unnamed/part_001), one record per literal,
  with the source's property names behind a prefix.  An option is a value that may be
  \<^verbatim>\<open>undefined\<close>.  The primary-key literal has no \<^verbatim>\<open>rule\<close> property: \<open>con_rule\<close> is
  \<open>None\<close> there.
\<close>

record column_def =
  col_name :: string
  col_type :: string
  col_constraints :: "string list"
  col_defaultVal :: "string option"
  col_altComment :: "string option"

record constraint_def =
  con_type :: string
  con_index_name :: string
  con_columns :: "string list"
  con_rule :: "string option"

record index_def =
  idx_name :: string
  idx_type :: string
  idx_columns :: "string list"

record table_def =
  tab_schema :: string
  tab_type :: string
  tab_name :: "string option"
  tab_columns :: "column_def list"
  tab_indexes :: "index_def list"
  tab_constraints :: "constraint_def list"
  tab_comments :: "(string \<times> string) list"
  tab_altComment :: "string option"

record sequence_def =
  seq_schema :: string
  seq_type :: string
  seq_name :: "string option"
  seq_altComment :: "string option"

text \<open>
  A table object is shared: \<^verbatim>\<open>currentTable\<close>, the entry of \<^verbatim>\<open>tableLookup\<close> and,
  once the table is closed, the element of \<^verbatim>\<open>jsonResult\<close> are one object, and a comment
  statement met later still writes into it.  The table objects therefore live in a store
  (\<open>heap\<close>), and the three places hold references into it.
\<close>

datatype element = SequenceObj sequence_def | TableRef nat | NullRef

datatype error = TypeError | UnknownState string

record parser =
  state :: string
  schemaName :: string
  currentTable :: "nat option"
  jsonResult :: "element list"
  tableLookup :: "(string \<times> nat) list"
  lookupProto :: "nat option"
  heap :: "table_def list"
  warnings :: "string list"

definition states_NONE :: string where "states_NONE = ''NONE''"
definition states_TABLE :: string where "states_TABLE = ''TABLE''"

definition initial :: parser where
  "initial = \<lparr>state = states_NONE, schemaName = [], currentTable = None, jsonResult = [],
              tableLookup = [], lookupProto = None, heap = [], warnings = []\<rparr>"

section \<open>Property access on plain objects\<close>

text \<open>A property key made from a value that may be \<^verbatim>\<open>undefined\<close>.\<close>

definition key_of :: "string option \<Rightarrow> string" where
  "key_of k = (case k of None \<Rightarrow> ''undefined'' | Some s \<Rightarrow> s)"

text \<open>
  The own keys of an object enumerate with the array indices first, in ascending order,
  then the other strings in the order of their creation.  An array index is the canonical
  decimal form of an integer from 0 to 4294967294.
\<close>

definition digit :: "char \<Rightarrow> nat" where
  "digit c = length (takeWhile (\<lambda>d. d \<noteq> c) ''0123456789'')"

definition num_val :: "string \<Rightarrow> nat" where
  "num_val k = foldl (\<lambda>n c. 10 * n + digit c) 0 k"

definition is_array_index :: "string \<Rightarrow> bool" where
  "is_array_index k =
     (k \<noteq> [] \<and> list_all (\<lambda>c. digit c < 10) k \<and> (k = ''0'' \<or> hd k \<noteq> CHR ''0'') \<and>
      num_val k < 4294967295)"

fun insert_key :: "(string \<times> 'a) list \<Rightarrow> string \<Rightarrow> 'a \<Rightarrow> (string \<times> 'a) list" where
  "insert_key [] k v = [(k, v)]"
| "insert_key ((k', v') # ps) k v =
     (if is_array_index k \<and> (\<not> is_array_index k' \<or> num_val k < num_val k')
      then (k, v) # (k', v') # ps
      else (k', v') # insert_key ps k v)"

text \<open>
  \<^verbatim>\<open>table.comments[columnName] = comment\<close> on the comments object of a table, which
  starts as \<^verbatim>\<open>{}\<close>.  An existing key keeps its place; \<^verbatim>\<open>__proto__\<close> is the inherited
  accessor, and assigning a string to it does nothing.
\<close>

definition put_prop :: "(string \<times> string) list \<Rightarrow> string \<Rightarrow> string \<Rightarrow> (string \<times> string) list" where
  "put_prop props k v =
     (if k = ''__proto__'' then props
      else if k \<in> fst ` set props
      then map (\<lambda>(k', v'). if k' = k then (k', v) else (k', v')) props
      else insert_key props k v)"

text \<open>
  What \<^verbatim>\<open>tableLookup[tableName]\<close> can evaluate to.  \<^verbatim>\<open>tableLookup\<close> is the object
  literal \<^verbatim>\<open>{}\<close>, so a name that is not an own property is looked up along the
  prototype chain.  \<open>GotOther\<close> stands for a truthy value without a \<^verbatim>\<open>comments\<close>
  property: a function inherited from \<^verbatim>\<open>Object.prototype\<close>, that prototype itself, or
  an array.
\<close>

datatype looked_up = GotTable nat | GotComments nat | GotString string | GotOther | GotUndefined

definition object_prototype_names :: "string list" where
  "object_prototype_names =
     [''constructor'', ''hasOwnProperty'', ''isPrototypeOf'', ''propertyIsEnumerable'',
      ''toLocaleString'', ''toString'', ''valueOf'', ''__defineGetter__'', ''__defineSetter__'',
      ''__lookupGetter__'', ''__lookupSetter__'']"

definition inherited :: "string \<Rightarrow> looked_up" where
  "inherited k = (if k \<in> set object_prototype_names then GotOther else GotUndefined)"

definition opt_string :: "string option \<Rightarrow> looked_up" where
  "opt_string v = (case v of None \<Rightarrow> GotUndefined | Some s \<Rightarrow> GotString s)"

text \<open>Reading the property \<open>k\<close> (other than \<^verbatim>\<open>__proto__\<close>) of the table object \<open>r\<close>.\<close>

definition table_get :: "nat \<Rightarrow> table_def \<Rightarrow> string \<Rightarrow> looked_up" where
  "table_get r t k =
     (if k = ''schema'' then GotString (tab_schema t)
      else if k = ''type'' then GotString (tab_type t)
      else if k = ''name'' then opt_string (tab_name t)
      else if k = ''columns'' \<or> k = ''indexes'' \<or> k = ''constraints'' then GotOther
      else if k = ''comments'' then GotComments r
      else if k = ''altComment'' then opt_string (tab_altComment t)
      else inherited k)"

text \<open>
  \<^verbatim>\<open>tableLookup[k]\<close>.  The prototype of \<^verbatim>\<open>tableLookup\<close> is \<^verbatim>\<open>Object.prototype\<close>
  (\<open>lookupProto = None\<close>) until a table named \<^verbatim>\<open>__proto__\<close> is registered: that
  assignment runs the inherited setter and makes the table object the prototype.
\<close>

definition lookup_get :: "parser \<Rightarrow> string \<Rightarrow> looked_up" where
  "lookup_get st k =
     (if k = ''__proto__'' then
        (case lookupProto st of None \<Rightarrow> GotOther | Some r \<Rightarrow> GotTable r)
      else
        (case map_of (tableLookup st) k of
           Some r \<Rightarrow> GotTable r
         | None \<Rightarrow>
             (case lookupProto st of
                None \<Rightarrow> inherited k
              | Some r \<Rightarrow> table_get r (heap st ! r) k)))"

text \<open>\<^verbatim>\<open>tableLookup[k] = currentTable\<close>; the newest entry of a name is in front.\<close>

definition lookup_set :: "parser \<Rightarrow> string \<Rightarrow> nat \<Rightarrow> parser" where
  "lookup_set st k r =
     (if k = ''__proto__'' then st\<lparr>lookupProto := Some r\<rparr>
      else st\<lparr>tableLookup := (k, r) # tableLookup st\<rparr>)"

definition modify_table :: "parser \<Rightarrow> nat \<Rightarrow> (table_def \<Rightarrow> table_def) \<Rightarrow> parser" where
  "modify_table st r f = st\<lparr>heap := (heap st)[r := f (heap st ! r)]\<rparr>"

definition warn :: "parser \<Rightarrow> string \<Rightarrow> parser" where
  "warn st msg = st\<lparr>warnings := warnings st @ [msg]\<rparr>"

section \<open>The line patterns\<close>

definition schemaRegex :: rx where
  "schemaRegex = Seq [Star Space, lit ''CREATE'', Plus Space, lit ''SCHEMA'', Plus Space,
                      Group 1 (Plus Word)]"

definition sequenceRegex :: rx where
  "sequenceRegex = Seq [Star Space, lit ''CREATE'', Plus Space, lit ''SEQUENCE'', Plus Space,
                        Group 1 (Seq [Plus Word, One (Ch CHR ''.''), Plus Word])]"

definition tableRegex :: rx where
  "tableRegex = Seq [Star Space, lit ''CREATE'', Plus Space, lit ''TABLE'', Plus Space,
                     Group 1 (Seq [Plus Word, One (Ch CHR ''.''), Plus Word])]"

definition columnRegex :: rx where
  "columnRegex =
     Seq [Star Space, Group 1 (Plus Word), Plus Space,
          Group 2 (Plus (OneOf [Word, Ch CHR ''('', Ch CHR '')'', Ch CHR '','', Ch CHR ''.'',
                                Ch (CHR 0x27), Ch CHR '':''])),
          Group 3 (Lazy Dot),
          Opt (Group 4 (Alt (Seq [Plus Space, lit ''NOT NULL''])
                            (Seq [Plus Space, lit ''NULL'']))),
          One (Ch CHR '','')]"

definition primaryKeyRegex :: rx where
  "primaryKeyRegex =
     Seq [Star Space, lit ''CONSTRAINT'', Plus Space, Group 1 (Plus Word), Plus Space,
          lit ''PRIMARY'', Plus Space, lit ''KEY'', Plus Space, One (Ch CHR ''(''),
          Group 2 (Plus (OneOf [Word, Ch CHR '','', Ch CHR '' ''])), One (Ch CHR '')'')]"

definition foreignKeyRegex :: rx where
  "foreignKeyRegex =
     Seq [Star Space, lit ''CONSTRAINT'', Plus Space, Group 1 (Plus Word), Plus Space,
          lit ''FOREIGN'', Plus Space, lit ''KEY'', Star Space, One (Ch CHR ''(''),
          Group 2 (Plus (OneOf [Word, Ch CHR '','', Ch CHR '' ''])), One (Ch CHR '')''),
          Group 3 (Star Dot)]"

definition indexRegex :: rx where
  "indexRegex =
     Seq [Star Space, lit ''CREATE'', Plus Space, Opt (Group 1 (lit ''UNIQUE '')),
          lit ''INDEX'', Plus Space, Group 2 (Plus Word), Plus Space, lit ''ON'', Plus Space,
          Group 3 (Seq [Plus Word, One (Ch CHR ''.''), Plus Word])]"

definition commentRegex :: rx where
  "commentRegex =
     Seq [Star Space, lit ''COMMENT'', Plus Space, lit ''ON'', Plus Space, lit ''COLUMN'',
          Plus Space,
          Group 1 (Seq [Plus Word, One (Ch CHR ''.''), Plus Word, One (Ch CHR ''.''), Plus Word]),
          Plus Space, lit ''IS'', Plus Space, One (Ch (CHR 0x27)), Group 2 (Plus Dot),
          One (Ch (CHR 0x27))]"

text \<open>\<^verbatim>\<open>/NOT\s+NULL/\<close> and \<^verbatim>\<open>/,$/\<close>: no flag, no \<^verbatim>\<open>^\<close>.\<close>

definition notNullRegex :: rx where
  "notNullRegex = Seq [lit ''NOT'', Plus Space, lit ''NULL'']"

definition trailingCommaRegex :: rx where
  "trailingCommaRegex = Seq [One (Ch CHR '',''), Eos]"

section \<open>The state machine\<close>

text \<open>
  The two branches \<^verbatim>\<open>else if (line.match(commentRegex))\<close>.  The branch of the state
  \<^verbatim>\<open>NONE\<close> trims the comment, the branch of the state \<^verbatim>\<open>TABLE\<close> does not.
  \<^verbatim>\<open>table.comments[columnName] = comment\<close> raises a TypeError when \<^verbatim>\<open>table.comments\<close>
  is \<^verbatim>\<open>undefined\<close>; on a string it does nothing (the module is not in strict mode).
\<close>

definition unknown_table_warning :: "string option \<Rightarrow> string" where
  "unknown_table_warning tableName =
     ''Warning: Comment references unknown table '' @ [CHR 0x27] @ key_of tableName @ [CHR 0x27]"

definition comment_statement :: "parser \<Rightarrow> mstate \<Rightarrow> bool \<Rightarrow> error + parser" where
  "comment_statement st m trimmed =
     (let fullColumnName = cap m 1;
          comment = (if trimmed then trim (cap m 2) else cap m 2);
          parts = schemaTableColumn fullColumnName ''S.T.C'';
          tableName = at parts 1;
          columnName = at parts 2
      in case lookup_get st (key_of tableName) of
           GotTable r \<Rightarrow>
             Inr (modify_table st r
                    (\<lambda>t. t\<lparr>tab_comments := put_prop (tab_comments t) (key_of columnName) comment\<rparr>))
         | GotComments r \<Rightarrow>
             (if ''comments'' \<in> fst ` set (tab_comments (heap st ! r)) then Inr st
              else Inl TypeError)
         | GotString s \<Rightarrow>
             (if s = [] then Inr (warn st (unknown_table_warning tableName)) else Inl TypeError)
         | GotOther \<Rightarrow> Inl TypeError
         | GotUndefined \<Rightarrow> Inr (warn st (unknown_table_warning tableName)))"

text \<open>\<^verbatim>\<open>case states.NONE\<close>\<close>

definition none_state :: "parser \<Rightarrow> string \<Rightarrow> string option \<Rightarrow> error + parser" where
  "none_state st line altComment =
     (case rx_exec True schemaRegex line of
        Some m \<Rightarrow> Inr (st\<lparr>schemaName := cap m 1\<rparr>)
      | None \<Rightarrow>
     (case rx_exec True sequenceRegex line of
        Some m \<Rightarrow>
          Inr (st\<lparr>jsonResult := jsonResult st @
                 [SequenceObj \<lparr>seq_schema = schemaName st, seq_type = ''sequence'',
                               seq_name = at (schemaTableColumn (cap m 1) ''S.T'') TABLE,
                               seq_altComment = altComment\<rparr>]\<rparr>)
      | None \<Rightarrow>
     (case rx_exec True tableRegex line of
        Some m \<Rightarrow>
          (let name = at (schemaTableColumn (cap m 1) ''S.T'') TABLE;
               r = length (heap st);
               created = st\<lparr>heap := heap st @
                              [\<lparr>tab_schema = schemaName st, tab_type = ''table'', tab_name = name,
                                tab_columns = [], tab_indexes = [], tab_constraints = [],
                                tab_comments = [], tab_altComment = altComment\<rparr>],
                            currentTable := Some r\<rparr>
           in Inr ((lookup_set created (key_of name) r)\<lparr>state := states_TABLE\<rparr>))
      | None \<Rightarrow>
     (case rx_exec True commentRegex line of
        Some m \<Rightarrow> comment_statement st m True
      | None \<Rightarrow> Inr st))))"

text \<open>
  \<^verbatim>\<open>currentTable.columns.push(...)\<close> and its siblings: a property read on
  \<^verbatim>\<open>currentTable\<close>, a TypeError when it is \<^verbatim>\<open>null\<close>.
\<close>

definition on_current :: "parser \<Rightarrow> (table_def \<Rightarrow> table_def) \<Rightarrow> error + parser" where
  "on_current st f =
     (case currentTable st of None \<Rightarrow> Inl TypeError | Some r \<Rightarrow> Inr (modify_table st r f))"

text \<open>The truthiness of a string or \<^verbatim>\<open>undefined\<close>.\<close>

definition truthy :: "string option \<Rightarrow> bool" where
  "truthy a = (case a of None \<Rightarrow> False | Some s \<Rightarrow> s \<noteq> [])"

text \<open>\<^verbatim>\<open>a || b\<close> where \<open>a\<close> is a string or \<^verbatim>\<open>undefined\<close> and \<open>b\<close> a string.\<close>

definition js_or :: "string option \<Rightarrow> string \<Rightarrow> string" where
  "js_or a b = (if truthy a then (case a of None \<Rightarrow> b | Some s \<Rightarrow> s) else b)"

text \<open>The column object built from a match of \<^verbatim>\<open>columnRegex\<close>.\<close>

definition column_of :: "mstate \<Rightarrow> string option \<Rightarrow> column_def" where
  "column_of m altComment =
     (let name = cap m 1; type = cap m 2; dflt = cap m 3; notNull = cap_opt m 4;
          isNotNull = rx_test False notNullRegex (trim (js_or notNull (js_or (Some dflt) [])));
          defaultVal = (if \<not> isNotNull
                        then Some (trim (str_replace ''DEFAULT'' [] (js_or (Some dflt) [])))
                        else None)
      in \<lparr>col_name = name, col_type = rx_replace False trailingCommaRegex [] type,
          col_constraints = (if isNotNull then [''NOT NULL''] else []),
          col_defaultVal = defaultVal, col_altComment = altComment\<rparr>)"

definition split_columns :: "string \<Rightarrow> string list" where
  "split_columns s = map trim (split_on '','' s)"

text \<open>\<^verbatim>\<open>case states.TABLE\<close>\<close>

definition table_state :: "parser \<Rightarrow> string \<Rightarrow> string option \<Rightarrow> error + parser" where
  "table_state st line altComment =
     (case rx_exec True primaryKeyRegex line of
        Some pk \<Rightarrow>
          on_current st (\<lambda>t. t\<lparr>tab_constraints := tab_constraints t @
             [\<lparr>con_type = ''primary_key'', con_index_name = cap pk 1,
               con_columns = split_columns (cap pk 2), con_rule = None\<rparr>]\<rparr>)
      | None \<Rightarrow>
     (case rx_exec True foreignKeyRegex line of
        Some fk \<Rightarrow>
          on_current st (\<lambda>t. t\<lparr>tab_constraints := tab_constraints t @
             [\<lparr>con_type = ''foreign_key'', con_index_name = cap fk 1,
               con_columns = split_columns (cap fk 2), con_rule = Some (cap fk 3)\<rparr>]\<rparr>)
      | None \<Rightarrow>
     (case rx_exec True indexRegex line of
        Some m \<Rightarrow>
          on_current st (\<lambda>t. t\<lparr>tab_indexes := tab_indexes t @
             [\<lparr>idx_name = cap m 2,
               idx_type = (if truthy (cap_opt m 1) then ''unique'' else ''btree''),
               idx_columns = []\<rparr>]\<rparr>)
      | None \<Rightarrow>
     (case rx_exec True commentRegex line of
        Some m \<Rightarrow> comment_statement st m False
      | None \<Rightarrow>
     (if prefix '');'' (trim line) then
        Inr (st\<lparr>jsonResult := jsonResult st @
                   [case currentTable st of None \<Rightarrow> NullRef | Some r \<Rightarrow> TableRef r],
                 currentTable := None, state := states_NONE\<rparr>)
      else
     (case rx_exec True columnRegex line of
        Some m \<Rightarrow>
          on_current st (\<lambda>t. t\<lparr>tab_columns := tab_columns t @ [column_of m altComment]\<rparr>)
      | None \<Rightarrow> Inr st))))))"

text \<open>
  The callback of \<^verbatim>\<open>ddlLines.forEach\<close>.  \<open>main_part\<close> and \<open>alt_comment\<close> are the two
  variables destructured from \<^verbatim>\<open>rawLine.split("--").map((part) => part?.trim())\<close>.
\<close>

definition main_part :: "string \<Rightarrow> string option" where
  "main_part rawLine = at (map trim (split_on ''--'' rawLine)) 0"

definition alt_comment :: "string \<Rightarrow> string option" where
  "alt_comment rawLine = at (map trim (split_on ''--'' rawLine)) 1"

definition process_line :: "parser \<Rightarrow> string \<Rightarrow> error + parser" where
  "process_line st rawLine =
     (case main_part rawLine of
        None \<Rightarrow> Inr st
      | Some mainPart \<Rightarrow>
          if mainPart = [] \<or> trim mainPart = [] then Inr st
          else if state st = states_NONE then none_state st mainPart (alt_comment rawLine)
          else if state st = states_TABLE then table_state st mainPart (alt_comment rawLine)
          else Inl (UnknownState (state st)))"

fun process_lines :: "parser \<Rightarrow> string list \<Rightarrow> error + parser" where
  "process_lines st [] = Inr st"
| "process_lines st (rawLine # rest) =
     (case process_line st rawLine of
        Inl e \<Rightarrow> Inl e
      | Inr st' \<Rightarrow> process_lines st' rest)"

section \<open>The value handed to the compactor\<close>

definition opt_jv :: "string option \<Rightarrow> jv" where
  "opt_jv v = (case v of None \<Rightarrow> JUndef | Some s \<Rightarrow> JStr s)"

definition render_column :: "column_def \<Rightarrow> jv" where
  "render_column c =
     JObj [(''name'', JStr (col_name c)), (''type'', JStr (col_type c)),
           (''constraints'', JArr (map JStr (col_constraints c))),
           (''defaultVal'', opt_jv (col_defaultVal c)),
           (''altComment'', opt_jv (col_altComment c))]"

definition render_constraint :: "constraint_def \<Rightarrow> jv" where
  "render_constraint k =
     JObj ([(''type'', JStr (con_type k)), (''index_name'', JStr (con_index_name k)),
            (''columns'', JArr (map JStr (con_columns k)))] @
           (case con_rule k of None \<Rightarrow> [] | Some r \<Rightarrow> [(''rule'', JStr r)]))"

definition render_index :: "index_def \<Rightarrow> jv" where
  "render_index i =
     JObj [(''name'', JStr (idx_name i)), (''type'', JStr (idx_type i)),
           (''columns'', JArr (map JStr (idx_columns i)))]"

definition render_table :: "table_def \<Rightarrow> jv" where
  "render_table t =
     JObj [(''schema'', JStr (tab_schema t)), (''type'', JStr (tab_type t)),
           (''name'', opt_jv (tab_name t)),
           (''columns'', JArr (map render_column (tab_columns t))),
           (''indexes'', JArr (map render_index (tab_indexes t))),
           (''constraints'', JArr (map render_constraint (tab_constraints t))),
           (''comments'', JObj (map (\<lambda>(k, v). (k, JStr v)) (tab_comments t))),
           (''altComment'', opt_jv (tab_altComment t))]"

definition render_sequence :: "sequence_def \<Rightarrow> jv" where
  "render_sequence s =
     JObj [(''schema'', JStr (seq_schema s)), (''type'', JStr (seq_type s)),
           (''name'', opt_jv (seq_name s)), (''altComment'', opt_jv (seq_altComment s))]"

fun render_element :: "table_def list \<Rightarrow> element \<Rightarrow> jv" where
  "render_element h (SequenceObj s) = render_sequence s"
| "render_element h (TableRef r) = render_table (h ! r)"
| "render_element h NullRef = JNull"

definition render_result :: "parser \<Rightarrow> jv" where
  "render_result st = JArr (map (render_element (heap st)) (jsonResult st))"

text \<open>\<^verbatim>\<open>parseDDL\<close>: \<open>Inl\<close> is the exception that leaves the function.\<close>

definition parseDDL :: "string \<Rightarrow> error + jv" where
  "parseDDL ddlContent =
     (case process_lines initial (split_on [CHR 0x0A] ddlContent) of
        Inl e \<Rightarrow> Inl e
      | Inr st \<Rightarrow> Inr (fst (compressObj (render_result st))))"

section \<open>Predicates on lines and parser states\<close>

text \<open>
  A line that ends a table body: its main part, the text before \<^verbatim>\<open>--\<close>, begins with
  \<^verbatim>\<open>);\<close> once trimmed.  This is the test of the branch that pushes the table.
\<close>

definition closing_line :: "string \<Rightarrow> bool" where
  "closing_line rawLine =
     (case main_part rawLine of None \<Rightarrow> False | Some line \<Rightarrow> prefix '');'' (trim line))"

text \<open>Every reference held by the result list or by \<^verbatim>\<open>currentTable\<close> is allocated.\<close>

definition refs_valid :: "parser \<Rightarrow> bool" where
  "refs_valid st =
     ((\<forall>r. TableRef r \<in> set (jsonResult st) \<longrightarrow> r < length (heap st)) \<and>
      (\<forall>r. currentTable st = Some r \<longrightarrow> r < length (heap st)))"

definition state_known :: "parser \<Rightarrow> bool" where
  "state_known st = (state st = states_NONE \<or> state st = states_TABLE)"



text \<open>The parser inside the body of a first table \<^verbatim>\<open>t\<close>, nothing else seen.\<close>

definition open_table_state :: parser where
  "open_table_state =
     \<lparr>state = ''TABLE'', schemaName = [], currentTable = Some 0, jsonResult = [],
      tableLookup = [(''t'', 0)], lookupProto = None,
      heap = [\<lparr>tab_schema = [], tab_type = ''table'', tab_name = Some ''t'', tab_columns = [],
               tab_indexes = [], tab_constraints = [], tab_comments = [],
               tab_altComment = None\<rparr>],
      warnings = []\<rparr>"

text \<open>That parser after the primary-key line \<^verbatim>\<open>CONSTRAINT t_pkey PRIMARY KEY (a, b)\<close>.\<close>

definition after_primary_key :: parser where
  "after_primary_key =
     \<lparr>state = ''TABLE'', schemaName = [], currentTable = Some 0, jsonResult = [],
      tableLookup = [(''t'', 0)], lookupProto = None,
      heap = [\<lparr>tab_schema = [], tab_type = ''table'', tab_name = Some ''t'', tab_columns = [],
               tab_indexes = [],
               tab_constraints = [\<lparr>con_type = ''primary_key'', con_index_name = ''t_pkey'',
                                   con_columns = [''a'', ''b''], con_rule = None\<rparr>],
               tab_comments = [], tab_altComment = None\<rparr>],
      warnings = []\<rparr>"

text \<open>
  An input whose table is never closed, and the parser after its first and second line.
\<close>

definition after_sequence :: parser where
  "after_sequence =
     \<lparr>state = ''NONE'', schemaName = [], currentTable = None,
      jsonResult = [SequenceObj \<lparr>seq_schema = [], seq_type = ''sequence'',
                                 seq_name = Some ''q'', seq_altComment = None\<rparr>],
      tableLookup = [], lookupProto = None, heap = [], warnings = []\<rparr>"

definition after_create :: parser where
  "after_create =
     \<lparr>state = ''TABLE'', schemaName = [], currentTable = Some 0,
      jsonResult = [SequenceObj \<lparr>seq_schema = [], seq_type = ''sequence'',
                                 seq_name = Some ''q'', seq_altComment = None\<rparr>],
      tableLookup = [(''t'', 0)], lookupProto = None,
      heap = [\<lparr>tab_schema = [], tab_type = ''table'', tab_name = Some ''t'', tab_columns = [],
               tab_indexes = [], tab_constraints = [], tab_comments = [],
               tab_altComment = None\<rparr>],
      warnings = []\<rparr>"

definition unterminated_input :: string where
  "unterminated_input = ''CREATE SEQUENCE s.q'' @ [CHR 0x0A] @ ''CREATE TABLE s.t ('' @
     [CHR 0x0A] @ ''id int,''"

section \<open>Proofs about the compactor\<close>

lemma no_empty_prim: "\<not> is_object v \<Longrightarrow> no_empty v = keep_primitive v"
  by (cases v) auto

lemma compact_prim: "\<not> is_object v \<Longrightarrow> keep_primitive v \<Longrightarrow> compact v"
  by (cases v) (auto simp: compact_def)

lemma compact_JArr: "compact (JArr xs) = (xs \<noteq> [] \<and> list_all compact xs)"
  by (auto simp: compact_def list_all_iff)

lemma compact_JObj:
  "compact (JObj kvs) =
     (kvs \<noteq> [] \<and> list_all (\<lambda>kv. fst kv \<noteq> ''__proto__'' \<and> compact (snd kv)) kvs)"
  by (auto simp: compact_def list_all_iff)

text \<open>
  A tree without empties and without \<^verbatim>\<open>__proto__\<close> keys goes through both loops
  untouched: every child is pushed as it is and the flag stays as it was.
\<close>

lemma untouched_all:
  "is_object v \<longrightarrow> no_empty v \<longrightarrow> no_proto_key v \<longrightarrow> compressObj v = (v, True)"
  "list_all no_empty xs \<longrightarrow> list_all no_proto_key xs \<longrightarrow>
     reduce_elements acc xs = (fst acc @ xs, snd acc)"
  "list_all (\<lambda>kv. no_empty (snd kv)) kvs \<longrightarrow>
   list_all (\<lambda>kv. fst kv \<noteq> ''__proto__'' \<and> no_proto_key (snd kv)) kvs \<longrightarrow>
     reduce_keys acc' kvs = (fst acc' @ kvs, snd acc')"
proof (induction v and acc xs and acc' kvs rule: compressObj_reduce_elements_reduce_keys.induct)
  case (1 input)
  then show ?case by auto
next
  case (2 input)
  then show ?case by auto
next
  case (5 result modified element rest)
  then show ?case by (cases element) (auto simp: no_empty_prim)
next
  case (7 compressed modified key val rest)
  then show ?case by (cases val) (auto simp: assign_own_def)
qed auto

lemma compact_untouched: "is_object v \<Longrightarrow> compact v \<Longrightarrow> compressObj v = (v, True)"
  using untouched_all(1) [of v] by (simp add: compact_def)

text \<open>
  What the loops build.  The accumulated children are compact; the flag only ever goes
  up; and when the flag is still down and nothing is missing, the accumulator has grown
  by exactly the input, child for child.
\<close>

lemma built_all:
  "\<forall>r same. compressObj v = (r, same) \<longrightarrow>
     (same \<longrightarrow> r = v) \<and> (is_object v \<longrightarrow> r = JUndef \<or> (is_object r \<and> compact r))"
  "\<forall>res' m'. reduce_elements acc xs = (res', m') \<longrightarrow> list_all compact (fst acc) \<longrightarrow>
     list_all compact res' \<and> length res' \<le> length (fst acc) + length xs \<and>
     (snd acc \<longrightarrow> m') \<and>
     (\<not> m' \<and> length res' = length (fst acc) + length xs \<longrightarrow> res' = fst acc @ xs)"
  "\<forall>res' m'. reduce_keys acc' kvs = (res', m') \<longrightarrow>
     list_all (\<lambda>kv. fst kv \<noteq> ''__proto__'' \<and> compact (snd kv)) (fst acc') \<longrightarrow>
     list_all (\<lambda>kv. fst kv \<noteq> ''__proto__'' \<and> compact (snd kv)) res' \<and>
     length res' \<le> length (fst acc') + length kvs \<and> (snd acc' \<longrightarrow> m') \<and>
     (\<not> m' \<and> length res' = length (fst acc') + length kvs \<longrightarrow> res' = fst acc' @ kvs)"
proof (induction v and acc xs and acc' kvs rule: compressObj_reduce_elements_reduce_keys.induct)
  case (1 input)
  then show ?case by (auto simp: compact_JArr split: prod.splits if_splits)
next
  case (2 input)
  then show ?case by (auto simp: compact_JObj split: prod.splits if_splits)
next
  case (5 result modified element rest)
  show ?case
  proof (cases "is_object element")
    case True
    with 5 show ?thesis
      by (cases "compressObj element") (auto simp: compact_prim split: prod.splits if_splits)
  next
    case False
    with 5 show ?thesis
      by (auto simp: compact_prim split: prod.splits if_splits)
  qed
next
  case (7 compressed modified key val rest)
  show ?case
  proof (cases "is_object val")
    case True
    with 7 show ?thesis
      by (cases "compressObj val")
         (auto simp: compact_prim assign_own_def split: prod.splits if_splits)
  next
    case False
    with 7 show ?thesis
      by (auto simp: compact_prim assign_own_def split: prod.splits if_splits)
  qed
qed auto

lemma compressObj_result:
  assumes "is_object v"
  shows "fst (compressObj v) = JUndef \<or>
         (is_object (fst (compressObj v)) \<and> compact (fst (compressObj v)))"
  using assms built_all(1) [of v] by (cases "compressObj v") auto

lemma compressObj_primitive: "\<not> is_object v \<Longrightarrow> compressObj v = (v, True)"
  by (cases v) auto

text \<open>
  C1 (as stated, refuted).  The list holding the record \<^verbatim>\<open>{schema:"s", type:"table",
  name:"t", columns:[], constraints:[], indexes:[], comments:{}}\<close> does not compact to
  the absence marker.
\<close>

theorem C1_not_absent:
  "fst (compressObj (JArr [empty_table_record ''s'' ''table'' ''t''])) \<noteq> JUndef"
  by (simp add: empty_table_record_def assign_own_def)

text \<open>
  C1 (amended).  Applying the compactor to the one-element list holding a table record
  whose columns, constraints, indexes and comments are all empty, and whose schema, type
  and name are non-empty strings, yields a freshly built one-element list whose record
  keeps exactly the schema, type and name fields: the four empty containers are removed,
  the record and the list survive.
\<close>

theorem C1_keeps_schema_type_name:
  assumes "s \<noteq> []" and "ty \<noteq> []" and "n \<noteq> []"
  shows "compressObj (JArr [empty_table_record s ty n]) =
           (JArr [JObj [(''schema'', JStr s), (''type'', JStr ty), (''name'', JStr n)]], False)"
  using assms by (simp add: empty_table_record_def assign_own_def)

theorem C1_keeps_schema_type_name_witness:
  "''s'' \<noteq> [] \<and> ''table'' \<noteq> [] \<and> ''t'' \<noteq> [] \<and>
   compressObj (JArr [empty_table_record ''s'' ''table'' ''t'']) =
     (JArr [JObj [(''schema'', JStr ''s''), (''type'', JStr ''table''), (''name'', JStr ''t'')]],
      False)"
  using C1_keeps_schema_type_name [of "''s''" "''table''" "''t''"] by simp

text \<open>
  C4 (as stated, refuted).  The claim ranges over every JSON-like value, but a value that
  is not a container is returned as it is: the empty string compacts to the empty string
  and \<^verbatim>\<open>null\<close> to \<^verbatim>\<open>null\<close>, neither of which is the absence marker.
\<close>

theorem C4_primitive_passes:
  "fst (compressObj (JStr [])) \<noteq> JUndef \<and> \<not> no_empty (fst (compressObj (JStr []))) \<and>
   fst (compressObj JNull) \<noteq> JUndef \<and> \<not> no_empty (fst (compressObj JNull))"
  by simp

text \<open>
  C4 (amended).  For every JSON-like value other than the empty string and \<^verbatim>\<open>null\<close>
  themselves, the result of the compactor, when it is not the absence marker, contains at
  no depth the absence marker, the empty string, a null value, an empty list or an empty
  mapping.
\<close>

theorem C4_no_empty_in_result:
  assumes "v \<noteq> JStr []" and "v \<noteq> JNull" and "fst (compressObj v) \<noteq> JUndef"
  shows "no_empty (fst (compressObj v))"
proof (cases "is_object v")
  case True
  with assms(3) compressObj_result [of v] show ?thesis by (auto simp: compact_def)
next
  case False
  with assms show ?thesis by (cases v) auto
qed

theorem C4_no_empty_in_result_witness:
  "JObj [(''a'', JStr []), (''b'', JArr [JNull, JNum 0, JObj []])] \<noteq> JStr [] \<and>
   JObj [(''a'', JStr []), (''b'', JArr [JNull, JNum 0, JObj []])] \<noteq> JNull \<and>
   fst (compressObj (JObj [(''a'', JStr []), (''b'', JArr [JNull, JNum 0, JObj []])])) \<noteq> JUndef \<and>
   no_empty (fst (compressObj (JObj [(''a'', JStr []), (''b'', JArr [JNull, JNum 0, JObj []])]))) \<and>
   fst (compressObj (JObj [(''a'', JStr []), (''b'', JArr [JNull, JNum 0, JObj []])])) =
     JObj [(''b'', JArr [JNum 0])]"
proof -
  let ?v = "JObj [(''a'', JStr []), (''b'', JArr [JNull, JNum 0, JObj []])]"
  have a: "?v \<noteq> JStr []" by simp
  have b: "?v \<noteq> JNull" by simp
  have c: "fst (compressObj ?v) \<noteq> JUndef" by (simp add: assign_own_def)
  have d: "fst (compressObj ?v) = JObj [(''b'', JArr [JNum 0])]" by (simp add: assign_own_def)
  from a b c d C4_no_empty_in_result [OF a b c] show ?thesis by blast
qed

text \<open>
  C5 (as stated, refuted).  The empty array has no element at all, so none is removable,
  and it compacts to the absence marker, not to itself.  An object whose only own key is
  \<^verbatim>\<open>__proto__\<close> holds nothing removable either, and it too compacts to the absence
  marker: the assignment to that key of the fresh object creates no own property.
\<close>

theorem C5_empty_not_preserved:
  "nothing_removable (JArr []) \<and> compressObj (JArr []) \<noteq> (JArr [], True) \<and>
   nothing_removable (JObj [(''__proto__'', JNum 1)]) \<and>
   compressObj (JObj [(''__proto__'', JNum 1)]) \<noteq> (JObj [(''__proto__'', JNum 1)], True)"
  by (simp add: assign_own_def)

text \<open>
  C5 (amended).  For every non-empty container in which no element or mapping value is
  removable at any depth, and in which no mapping has an own key named \<^verbatim>\<open>__proto__\<close>,
  the compactor returns the original input reference unchanged.
\<close>

theorem C5_identity_preserved:
  assumes "is_object c" and "no_empty c" and "no_proto_key c"
  shows "compressObj c = (c, True)"
  using assms compact_untouched [of c] by (simp add: compact_def)

theorem C5_identity_preserved_witness:
  "is_object (JArr [JNum 0, JBool False, JObj [(''e'', JStr ''value'')]]) \<and>
   no_empty (JArr [JNum 0, JBool False, JObj [(''e'', JStr ''value'')]]) \<and>
   no_proto_key (JArr [JNum 0, JBool False, JObj [(''e'', JStr ''value'')]]) \<and>
   compressObj (JArr [JNum 0, JBool False, JObj [(''e'', JStr ''value'')]]) =
     (JArr [JNum 0, JBool False, JObj [(''e'', JStr ''value'')]], True)"
proof -
  let ?c = "JArr [JNum 0, JBool False, JObj [(''e'', JStr ''value'')]]"
  have a: "is_object ?c" by simp
  have b: "no_empty ?c" by simp
  have c: "no_proto_key ?c" by simp
  from a b c C5_identity_preserved [OF a b c] show ?thesis by blast
qed

text \<open>
  C6.  The compactor is idempotent on every value, containers included: applying it to
  its own result returns that result, by reference.  When the input compacts to nothing
  the result is the absence marker, which is returned as it is.
\<close>

theorem C6_idempotent:
  "compressObj (fst (compressObj c)) = (fst (compressObj c), True)"
proof (cases "is_object c")
  case True
  from compressObj_result [OF True] show ?thesis
  proof
    assume "fst (compressObj c) = JUndef"
    then show ?thesis by simp
  next
    assume "is_object (fst (compressObj c)) \<and> compact (fst (compressObj c))"
    then show ?thesis by (simp add: compact_untouched)
  qed
next
  case False
  then show ?thesis by (simp add: compressObj_primitive)
qed

theorem C6_idempotent_witness:
  "compressObj (fst (compressObj (JObj [(''a'', JObj [(''b'', JObj [])]), (''c'', JArr [JStr [], JNum 2])]))) =
     (fst (compressObj (JObj [(''a'', JObj [(''b'', JObj [])]), (''c'', JArr [JStr [], JNum 2])])), True) \<and>
   fst (compressObj (JObj [(''a'', JObj [(''b'', JObj [])]), (''c'', JArr [JStr [], JNum 2])])) =
     JObj [(''c'', JArr [JNum 2])]"
  using C6_idempotent [of "JObj [(''a'', JObj [(''b'', JObj [])]), (''c'', JArr [JStr [], JNum 2])]"]
  by (simp add: assign_own_def)

section \<open>Proofs about the name decomposition\<close>

lemma schemaTableColumn_three_parts:
  "length (split_on ''.'' name) = 3 \<Longrightarrow> schemaTableColumn name expected = split_on ''.'' name"
  by (auto simp: schemaTableColumn_def Let_def)


section \<open>Proofs about the state machine\<close>

lemma modify_table_fields [simp]:
  "state (modify_table st r f) = state st"
  "jsonResult (modify_table st r f) = jsonResult st"
  "currentTable (modify_table st r f) = currentTable st"
  "length (heap (modify_table st r f)) = length (heap st)"
  "schemaName (modify_table st r f) = schemaName st"
  by (simp_all add: modify_table_def)

lemma warn_fields [simp]:
  "state (warn st msg) = state st"
  "jsonResult (warn st msg) = jsonResult st"
  "currentTable (warn st msg) = currentTable st"
  "heap (warn st msg) = heap st"
  by (simp_all add: warn_def)

lemma lookup_set_fields [simp]:
  "state (lookup_set st k r) = state st"
  "jsonResult (lookup_set st k r) = jsonResult st"
  "currentTable (lookup_set st k r) = currentTable st"
  "heap (lookup_set st k r) = heap st"
  by (simp_all add: lookup_set_def)

text \<open>What a step that does not close a table leaves alone.\<close>

lemma comment_statement_keeps:
  assumes "comment_statement st m b = Inr st'"
  shows "state st' = state st \<and> jsonResult st' = jsonResult st \<and>
         currentTable st' = currentTable st \<and> length (heap st') = length (heap st)"
  using assms
  by (auto simp: comment_statement_def Let_def split: looked_up.splits if_splits)

lemma comment_statement_error: "comment_statement st m b = Inl e \<Longrightarrow> e = TypeError"
  by (auto simp: comment_statement_def Let_def split: looked_up.splits if_splits)

lemma on_current_keeps:
  assumes "on_current st f = Inr st'"
  shows "state st' = state st \<and> jsonResult st' = jsonResult st \<and>
         currentTable st' = currentTable st \<and> length (heap st') = length (heap st)"
  using assms by (auto simp: on_current_def split: option.splits)

lemma on_current_error: "on_current st f = Inl e \<Longrightarrow> e = TypeError"
  by (auto simp: on_current_def split: option.splits)

lemma table_state_keeps:
  assumes "table_state st line alt = Inr st'" and "\<not> prefix '');'' (trim line)"
  shows "state st' = state st \<and> jsonResult st' = jsonResult st \<and>
         currentTable st' = currentTable st \<and> length (heap st') = length (heap st)"
  using assms unfolding table_state_def
  by (auto split: option.splits dest: on_current_keeps comment_statement_keeps)

lemma table_state_error: "table_state st line alt = Inl e \<Longrightarrow> e = TypeError"
  unfolding table_state_def
  by (auto split: option.splits if_splits dest: on_current_error comment_statement_error)

lemma none_state_error: "none_state st line alt = Inl e \<Longrightarrow> e = TypeError"
  unfolding none_state_def
  by (auto simp: Let_def split: option.splits if_splits dest: comment_statement_error)

lemma process_line_error:
  assumes "state_known st" and "process_line st rawLine = Inl e"
  shows "e = TypeError"
  using assms
  by (auto simp: process_line_def state_known_def split: option.splits if_splits
           dest: none_state_error table_state_error)

lemma none_state_known:
  assumes "none_state st line alt = Inr st'" and "state st = states_NONE"
  shows "state_known st'"
  using assms unfolding none_state_def state_known_def
  by (auto simp: Let_def split: option.splits dest: comment_statement_keeps)

lemma table_state_known:
  assumes "table_state st line alt = Inr st'" and "state st = states_TABLE"
  shows "state_known st'"
  using assms unfolding table_state_def state_known_def
  by (auto split: option.splits if_splits dest: on_current_keeps comment_statement_keeps)

lemma process_line_known:
  assumes "state_known st" and "process_line st rawLine = Inr st'"
  shows "state_known st'"
  using assms
  by (auto simp: process_line_def split: option.splits if_splits
           dest: none_state_known table_state_known)

lemma process_lines_error:
  "state_known st \<Longrightarrow> process_lines st ls = Inl e \<Longrightarrow> e = TypeError"
proof (induction ls arbitrary: st)
  case Nil
  then show ?case by simp
next
  case (Cons l ls)
  show ?case
  proof (cases "process_line st l")
    case (Inl e')
    with Cons.prems show ?thesis using process_line_error [of st l e'] by simp
  next
    case (Inr st')
    with Cons.prems have "state_known st'" using process_line_known by blast
    with Cons.IH [of st'] Cons.prems Inr show ?thesis by simp
  qed
qed

text \<open>
  The state variable is only ever \<^verbatim>\<open>NONE\<close> or \<^verbatim>\<open>TABLE\<close>, so the \<^verbatim>\<open>default\<close> branch
  of the switch is never taken; what \<^verbatim>\<open>parseDDL\<close> can raise is a TypeError.
\<close>

lemma unknown_state_unreachable: "parseDDL ddlContent \<noteq> Inl (UnknownState u)"
proof
  assume a: "parseDDL ddlContent = Inl (UnknownState u)"
  have k: "state_known initial" by (simp add: state_known_def initial_def)
  from a have "process_lines initial (split_on [CHR 0x0A] ddlContent) = Inl (UnknownState u)"
    by (auto simp: parseDDL_def split: sum.splits)
  from process_lines_error [OF k this] show False by simp
qed

lemma process_line_in_table:
  assumes "state st = states_TABLE" and "\<not> closing_line rawLine"
    and "process_line st rawLine = Inr st'"
  shows "state st' = states_TABLE \<and> jsonResult st' = jsonResult st \<and>
         currentTable st' = currentTable st \<and> length (heap st') = length (heap st)"
  using assms
  by (auto simp: process_line_def closing_line_def states_NONE_def states_TABLE_def
           split: option.splits if_splits dest: table_state_keeps)

lemma process_lines_in_table:
  "state st = states_TABLE \<Longrightarrow> \<forall>l \<in> set ls. \<not> closing_line l \<Longrightarrow>
   process_lines st ls = Inr st' \<Longrightarrow>
   state st' = states_TABLE \<and> jsonResult st' = jsonResult st \<and>
   currentTable st' = currentTable st \<and> length (heap st') = length (heap st)"
proof (induction ls arbitrary: st)
  case Nil
  then show ?case by simp
next
  case (Cons l ls)
  from Cons.prems obtain mid where m: "process_line st l = Inr mid"
    and r: "process_lines mid ls = Inr st'"
    by (auto split: sum.splits)
  from Cons.prems have nl: "\<not> closing_line l" by simp
  from process_line_in_table [OF Cons.prems(1) nl m]
  have k: "state mid = states_TABLE" "jsonResult mid = jsonResult st"
    "currentTable mid = currentTable st" "length (heap mid) = length (heap st)" by simp_all
  from Cons.prems have "\<forall>l \<in> set ls. \<not> closing_line l" by simp
  from Cons.IH [OF k(1) this r] k show ?case by simp
qed

lemma none_state_opens:
  assumes "none_state st line alt = Inr st'" and "state st = states_NONE"
    and "state st' = states_TABLE"
  shows "jsonResult st' = jsonResult st \<and> currentTable st' = Some (length (heap st)) \<and>
         length (heap st') = Suc (length (heap st))"
  using assms unfolding none_state_def
  by (auto simp: Let_def states_NONE_def states_TABLE_def split: option.splits
           dest: comment_statement_keeps)

lemma process_line_opens:
  assumes "process_line st rawLine = Inr st'" and "state st = states_NONE"
    and "state st' = states_TABLE"
  shows "jsonResult st' = jsonResult st \<and> currentTable st' = Some (length (heap st)) \<and>
         length (heap st') = Suc (length (heap st))"
  using assms
  by (auto simp: process_line_def states_NONE_def states_TABLE_def
           split: option.splits if_splits
           dest: none_state_opens [unfolded states_NONE_def states_TABLE_def])

lemma none_state_refs:
  assumes "none_state st line alt = Inr st'" and "refs_valid st"
  shows "refs_valid st'"
  using assms unfolding none_state_def refs_valid_def
  by (auto simp: Let_def split: option.splits dest!: comment_statement_keeps)

lemma table_state_refs:
  assumes "table_state st line alt = Inr st'" and "refs_valid st"
  shows "refs_valid st'"
  using assms unfolding table_state_def refs_valid_def
  by (auto split: option.splits if_splits dest!: on_current_keeps comment_statement_keeps)

lemma process_line_refs:
  assumes "process_line st rawLine = Inr st'" and "refs_valid st"
  shows "refs_valid st'"
  using assms
  by (auto simp: process_line_def split: option.splits if_splits
           dest: none_state_refs table_state_refs)

lemma process_lines_refs:
  "process_lines st ls = Inr st' \<Longrightarrow> refs_valid st \<Longrightarrow> refs_valid st'"
  by (induction ls arbitrary: st) (auto split: sum.splits dest: process_line_refs)

lemma process_lines_append:
  "process_lines st (xs @ ys) =
     (case process_lines st xs of Inl e \<Rightarrow> Inl e | Inr mid \<Rightarrow> process_lines mid ys)"
  by (induction xs arbitrary: st) (auto split: sum.splits)

text \<open>
  What does hold of the comment statements: the newest registration of a name is the one
  the lookup finds, and a comment on a registered table is written into that table.
\<close>

lemma newest_registration:
  "k \<noteq> ''__proto__'' \<Longrightarrow> map_of (tableLookup (lookup_set st k r)) k = Some r"
  by (simp add: lookup_set_def)

lemma comment_on_registered_table:
  assumes "at (schemaTableColumn (cap m 1) ''S.T.C'') 1 = Some tbl"
    and "tbl \<noteq> ''__proto__''" and "map_of (tableLookup st) tbl = Some r"
  shows "comment_statement st m trimmed =
           Inr (modify_table st r
                  (\<lambda>t. t\<lparr>tab_comments :=
                     put_prop (tab_comments t)
                       (key_of (at (schemaTableColumn (cap m 1) ''S.T.C'') 2))
                       (if trimmed then trim (cap m 2) else cap m 2)\<rparr>))"
  using assms by (simp add: comment_statement_def Let_def lookup_get_def key_of_def)

text \<open>
  C3 (the code at the failing input).  \<^verbatim>\<open>parseDDL\<close> raises on a comment statement whose
  table name is a property that every plain object inherits: \<^verbatim>\<open>tableLookup["constructor"]\<close>
  is the function \<^verbatim>\<open>Object\<close>, which is truthy and has no \<^verbatim>\<open>comments\<close>, so the
  assignment \<^verbatim>\<open>table.comments[columnName] = ...\<close> throws a TypeError instead of the
  warning of the \<^verbatim>\<open>else\<close> branch.
\<close>

theorem C3_inherited_name_raises:
  "parseDDL ''COMMENT ON COLUMN s.constructor.c IS 'x';'' = Inl TypeError"
  by code_simp

text \<open>
  C9 (the code at the failing input).  No table is registered under the name
  \<^verbatim>\<open>toString\<close>, yet the comment statement emits no diagnostic and parsing does not
  continue: the lookup finds the inherited function and the statement raises a TypeError.
\<close>

theorem C9_unregistered_name_is_fatal:
  "map_of (tableLookup initial) ''toString'' = None \<and>
   process_line initial ''COMMENT ON COLUMN s.toString.c IS 'x';'' = Inl TypeError \<and>
   parseDDL ''COMMENT ON COLUMN s.toString.c IS 'x';'' = Inl TypeError"
  by code_simp

text \<open>Evaluation of the primary-key line of C7.\<close>

lemma pk_main_part:
  "main_part ''CONSTRAINT t_pkey PRIMARY KEY (a, b)'' =
     Some ''CONSTRAINT t_pkey PRIMARY KEY (a, b)''"
  by code_simp

lemma pk_alt_comment: "alt_comment ''CONSTRAINT t_pkey PRIMARY KEY (a, b)'' = None"
  by code_simp

lemma pk_match:
  "rx_exec True primaryKeyRegex ''CONSTRAINT t_pkey PRIMARY KEY (a, b)'' =
     Some ([], [(2, ''a, b''), (1, ''t_pkey'')])"
  by code_simp

lemma pk_columns: "split_columns ''a, b'' = [''a'', ''b'']"
  by code_simp

text \<open>
  C7 (as stated, refuted).  The record that the primary-key line appends has the
  properties \<^verbatim>\<open>type\<close>, \<^verbatim>\<open>index_name\<close> and \<^verbatim>\<open>columns\<close>: the index name is stored
  under \<^verbatim>\<open>index_name\<close>, and the record has no property \<^verbatim>\<open>indexName\<close>.
\<close>

theorem C7_property_is_index_name:
  "process_line open_table_state ''CONSTRAINT t_pkey PRIMARY KEY (a, b)'' =
     Inr after_primary_key \<and>
   map render_constraint (tab_constraints (heap after_primary_key ! 0)) =
     [JObj [(''type'', JStr ''primary_key''), (''index_name'', JStr ''t_pkey''),
            (''columns'', JArr [JStr ''a'', JStr ''b''])]] \<and>
   map render_constraint (tab_constraints (heap after_primary_key ! 0)) \<noteq>
     [JObj [(''type'', JStr ''primary_key''), (''indexName'', JStr ''t_pkey''),
            (''columns'', JArr [JStr ''a'', JStr ''b''])]]"
proof -
  have "process_line open_table_state ''CONSTRAINT t_pkey PRIMARY KEY (a, b)'' =
          Inr after_primary_key"
    by (simp add: process_line_def pk_main_part pk_alt_comment table_state_def pk_match
          on_current_def cap_def pk_columns states_NONE_def states_TABLE_def trim_def
          is_space_def modify_table_def open_table_state_def after_primary_key_def)
  moreover have "map render_constraint (tab_constraints (heap after_primary_key ! 0)) =
     [JObj [(''type'', JStr ''primary_key''), (''index_name'', JStr ''t_pkey''),
            (''columns'', JArr [JStr ''a'', JStr ''b''])]]"
    by (simp add: after_primary_key_def render_constraint_def)
  ultimately show ?thesis by simp
qed

text \<open>
  C7 (amended).  In the state \<^verbatim>\<open>TABLE\<close>, with a current table \<open>r\<close>, the line
  \<^verbatim>\<open>CONSTRAINT t_pkey PRIMARY KEY (a, b)\<close> appends to the constraints of the current table
  the record \<^verbatim>\<open>{type: "primary_key", index_name: "t_pkey", columns: ["a", "b"]}\<close>, and
  changes nothing else.
\<close>

theorem C7_primary_key_line:
  assumes "state st = states_TABLE" and "currentTable st = Some r" and "r < length (heap st)"
  shows "\<exists>st'. process_line st ''CONSTRAINT t_pkey PRIMARY KEY (a, b)'' = Inr st' \<and>
           st' = modify_table st r (\<lambda>t. t\<lparr>tab_constraints := tab_constraints t @
                   [\<lparr>con_type = ''primary_key'', con_index_name = ''t_pkey'',
                     con_columns = [''a'', ''b''], con_rule = None\<rparr>]\<rparr>) \<and>
           tab_constraints (heap st' ! r) = tab_constraints (heap st ! r) @
                   [\<lparr>con_type = ''primary_key'', con_index_name = ''t_pkey'',
                     con_columns = [''a'', ''b''], con_rule = None\<rparr>] \<and>
           map render_constraint (tab_constraints (heap st' ! r)) =
             map render_constraint (tab_constraints (heap st ! r)) @
               [JObj [(''type'', JStr ''primary_key''), (''index_name'', JStr ''t_pkey''),
                      (''columns'', JArr [JStr ''a'', JStr ''b''])]] \<and>
           state st' = states_TABLE \<and> currentTable st' = Some r"
  using assms
  by (simp add: process_line_def pk_main_part pk_alt_comment table_state_def pk_match
        on_current_def cap_def pk_columns states_NONE_def states_TABLE_def trim_def
        is_space_def modify_table_def render_constraint_def)

lemma open_table_state_reached:
  "process_lines initial [''CREATE TABLE s.t (''] = Inr open_table_state"
  unfolding open_table_state_def by code_simp

theorem C7_primary_key_line_witness:
  "process_lines initial [''CREATE TABLE s.t (''] = Inr open_table_state \<and>
   state open_table_state = states_TABLE \<and> currentTable open_table_state = Some 0 \<and>
   0 < length (heap open_table_state) \<and>
   (\<exists>st'. process_line open_table_state ''CONSTRAINT t_pkey PRIMARY KEY (a, b)'' = Inr st' \<and>
      tab_constraints (heap st' ! 0) =
        [\<lparr>con_type = ''primary_key'', con_index_name = ''t_pkey'',
          con_columns = [''a'', ''b''], con_rule = None\<rparr>] \<and>
      map render_constraint (tab_constraints (heap st' ! 0)) =
        [JObj [(''type'', JStr ''primary_key''), (''index_name'', JStr ''t_pkey''),
               (''columns'', JArr [JStr ''a'', JStr ''b''])]])"
proof -
  have a: "state open_table_state = states_TABLE"
    by (simp add: open_table_state_def states_TABLE_def)
  have b: "currentTable open_table_state = Some 0" by (simp add: open_table_state_def)
  have c: "0 < length (heap open_table_state)" by (simp add: open_table_state_def)
  have d: "tab_constraints (heap open_table_state ! 0) = []" by (simp add: open_table_state_def)
  from C7_primary_key_line [OF a b c] d open_table_state_reached a b c
  show ?thesis by auto
qed

section \<open>Proofs about the patterns and the column branch\<close>

text \<open>A group that takes part in every match is defined in the result of every match.\<close>

lemma run_binds:
  "(s', c') \<in> set (run ic r st) \<longrightarrow> fst ` set (snd st) \<union> binds r \<subseteq> fst ` set c'"
  "(s', c') \<in> set (run_seq ic rs st) \<longrightarrow>
     fst ` set (snd st) \<union> (\<Union>r \<in> set rs. binds r) \<subseteq> fst ` set c'"
proof (induction ic r st and ic rs st arbitrary: s' c' and s' c' rule: run_run_seq.induct)
  case (1 icase k s caps)
  then show ?case by (auto split: list.splits if_splits)
next
  case (3 icase k s caps)
  then show ?case by (auto split: list.splits if_splits)
next
  case (8 icase n a s caps)
  show ?case
  proof
    assume "(s', c') \<in> set (run icase (Group n a) (s, caps))"
    then obtain c0 where c: "c' = (n, take (length s - length s') s) # c0"
      and m: "(s', c0) \<in> set (run icase a (s, caps))" by auto
    from 8 [of s' c0] m have "fst ` set caps \<union> binds a \<subseteq> fst ` set c0" by simp
    with c show "fst ` set (snd (s, caps)) \<union> binds (Group n a) \<subseteq> fst ` set c'" by auto
  qed
next
  case (2 icase k s caps)
  then show ?case by auto
next
  case (4 icase k s caps)
  then show ?case by auto
next
  case (5 icase rs st)
  then show ?case by simp
next
  case (6 icase a b st)
  from 6(1) [of s' c'] 6(2) [of s' c'] show ?case by auto
next
  case (7 icase a st)
  from 7 [of s' c'] show ?case by auto
next
  case (9 icase s caps)
  then show ?case by (auto split: if_splits)
next
  case (10 icase st)
  then show ?case by auto
next
  case (11 icase r rs st)
  show ?case
  proof
    assume "(s', c') \<in> set (run_seq icase (r # rs) st)"
    then obtain mid where m: "mid \<in> set (run icase r st)"
      and e: "(s', c') \<in> set (run_seq icase rs mid)" by auto
    from 11(1) [of "fst mid" "snd mid"] m
    have a: "fst ` set (snd st) \<union> binds r \<subseteq> fst ` set (snd mid)" by simp
    from 11(2) [OF m, of s' c'] e
    have b: "fst ` set (snd mid) \<union> (\<Union>r \<in> set rs. binds r) \<subseteq> fst ` set c'" by simp
    from a b have "fst ` set (snd st) \<subseteq> fst ` set c'" and "binds r \<subseteq> fst ` set c'"
      and "(\<Union>r \<in> set rs. binds r) \<subseteq> fst ` set c'" by blast+
    then show "fst ` set (snd st) \<union> (\<Union>r \<in> set (r # rs). binds r) \<subseteq> fst ` set c'"
      by simp
  qed
qed

lemma cap_defined:
  assumes "rx_exec ic r s = Some m" and "n \<in> binds r"
  shows "cap_opt m n = Some (cap m n)"
proof -
  from assms(1) have "m \<in> set (run ic r (s, []))"
    by (auto simp: rx_exec_def split: list.splits)
  with run_binds(1) [of "fst m" "snd m" ic r "(s, [])"] assms(2)
  have "n \<in> fst ` set (snd m)" by auto
  then obtain v where "map_of (snd m) n = Some v"
    by (metis domIff dom_map_of_conv_image_fst not_Some_eq)
  then show ?thesis by (simp add: cap_opt_def cap_def)
qed

lemma pattern_groups:
  "1 \<in> binds schemaRegex" "1 \<in> binds sequenceRegex" "1 \<in> binds tableRegex"
  "{1, 2, 3} \<subseteq> binds columnRegex" "{1, 2} \<subseteq> binds primaryKeyRegex"
  "{1, 2, 3} \<subseteq> binds foreignKeyRegex" "2 \<in> binds indexRegex"
  "{1, 2} \<subseteq> binds commentRegex"
  by (simp_all add: schemaRegex_def sequenceRegex_def tableRegex_def columnRegex_def
        primaryKeyRegex_def foreignKeyRegex_def indexRegex_def commentRegex_def lit_def)
















lemma js_or_Some_Nil [simp]: "js_or (Some s) [] = s"
  by (simp add: js_or_def truthy_def)














text \<open>
  C10.  Split the input into lines.  If the lines before some line leave the parser in the
  state \<^verbatim>\<open>NONE\<close>, that line takes it to the state \<^verbatim>\<open>TABLE\<close> (it is a CREATE TABLE
  line, which allocates the table object \<open>length (heap s1)\<close> and makes it the current
  table), no later line begins with \<^verbatim>\<open>);\<close>, and the parse returns \<open>v\<close>, then the result
  list at the end is the one from before the table was opened.  It holds no reference to
  the table, and \<open>v\<close> is the compaction of that list: the unterminated table with
  everything accumulated in it is left out, and nothing is raised for it.
\<close>

theorem C10_unterminated_table_omitted:
  assumes lines: "split_on [CHR 0x0A] ddlContent = before @ [createLine] @ later"
    and before: "process_lines initial before = Inr s1"
    and none: "state s1 = states_NONE"
    and opens: "process_line s1 createLine = Inr s2"
    and table: "state s2 = states_TABLE"
    and later: "\<forall>l \<in> set later. \<not> closing_line l"
    and returns: "parseDDL ddlContent = Inr v"
  shows "\<exists>s3. process_lines s2 later = Inr s3 \<and>
           currentTable s2 = Some (length (heap s1)) \<and>
           TableRef (length (heap s1)) \<notin> set (jsonResult s3) \<and>
           jsonResult s3 = jsonResult s1 \<and>
           v = fst (compressObj (render_result s3))"
proof -
  from returns lines before opens obtain s3 where
    s3: "process_lines s2 later = Inr s3" and v: "v = fst (compressObj (render_result s3))"
    by (auto simp: parseDDL_def process_lines_append split: sum.splits)
  from process_line_opens [OF opens none table]
  have o: "jsonResult s2 = jsonResult s1" "currentTable s2 = Some (length (heap s1))" by simp_all
  from process_lines_in_table [OF table later s3]
  have k: "jsonResult s3 = jsonResult s2" by simp
  have "refs_valid initial" by (simp add: refs_valid_def initial_def)
  from process_lines_refs [OF before this]
  have "TableRef (length (heap s1)) \<notin> set (jsonResult s1)" by (auto simp: refs_valid_def)
  with s3 v o k show ?thesis by simp
qed

lemma unterminated_lines:
  "split_on [CHR 0x0A] unterminated_input =
     [''CREATE SEQUENCE s.q''] @ [''CREATE TABLE s.t (''] @ [''id int,'']"
  unfolding unterminated_input_def by code_simp

lemma unterminated_before: "process_lines initial [''CREATE SEQUENCE s.q''] = Inr after_sequence"
  unfolding after_sequence_def by code_simp

lemma unterminated_opens: "process_line after_sequence ''CREATE TABLE s.t ('' = Inr after_create"
  unfolding after_sequence_def after_create_def by code_simp

lemma unterminated_later: "\<not> closing_line ''id int,''"
  by code_simp

lemma unterminated_returns:
  "parseDDL unterminated_input =
     Inr (JArr [JObj [(''type'', JStr ''sequence''), (''name'', JStr ''q'')]])"
  unfolding unterminated_input_def by code_simp

theorem C10_unterminated_table_omitted_witness:
  "split_on [CHR 0x0A] unterminated_input =
     [''CREATE SEQUENCE s.q''] @ [''CREATE TABLE s.t (''] @ [''id int,''] \<and>
   process_lines initial [''CREATE SEQUENCE s.q''] = Inr after_sequence \<and>
   state after_sequence = states_NONE \<and>
   process_line after_sequence ''CREATE TABLE s.t ('' = Inr after_create \<and>
   state after_create = states_TABLE \<and>
   \<not> closing_line ''id int,'' \<and>
   parseDDL unterminated_input =
     Inr (JArr [JObj [(''type'', JStr ''sequence''), (''name'', JStr ''q'')]]) \<and>
   (\<exists>s3. process_lines after_create [''id int,''] = Inr s3 \<and>
      currentTable after_create = Some 0 \<and>
      TableRef 0 \<notin> set (jsonResult s3) \<and>
      jsonResult s3 = jsonResult after_sequence \<and>
      JArr [JObj [(''type'', JStr ''sequence''), (''name'', JStr ''q'')]] =
        fst (compressObj (render_result s3)))"
proof -
  have n: "state after_sequence = states_NONE"
    by (simp add: after_sequence_def states_NONE_def)
  have t: "state after_create = states_TABLE"
    by (simp add: after_create_def states_TABLE_def)
  have l: "\<forall>l \<in> set [''id int,'']. \<not> closing_line l"
    using unterminated_later by simp
  have h: "length (heap after_sequence) = 0" by (simp add: after_sequence_def)
  from C10_unterminated_table_omitted [OF unterminated_lines unterminated_before n
      unterminated_opens t l unterminated_returns]
    unterminated_lines unterminated_before n unterminated_opens t unterminated_later
    unterminated_returns h
  show ?thesis by simp
qed

end
